theory Spec2Isabelle
  imports Complex_Main "HOL-Library.Sublist" "HOL-Library.Word"
begin

section \<open>The Xray-ECG AI service (src/ai_service/main.py)\<close>

text \<open>
  The service has two handlers: \<open>health\<close> (GET /health) and \<open>predict\<close> (POST /predict).
  Both are modelled as pure functions of their inputs. Two library calls of \<open>predict\<close>
  are not code of the service and are taken as parameters:
  \<^item> \<open>image_open\<close>: whether \<open>Image.open(io.BytesIO(b)).convert("RGB")\<close> of Pillow returns
    (True) or raises (False) on the bytes \<open>b\<close>;
  \<^item> \<open>draw\<close>: the stream of numpy's generator, \<open>draw seed i\<close> being draw number \<open>i\<close> of
    \<open>np.random.default_rng(seed)\<close>, so that \<open>rng.random(n)\<close> is the first \<open>n\<close> draws.

  Python floats are modelled as reals. The service does no floating-point arithmetic: it
  copies the literals 0.12, 0.92, 0.78 and 0.08 and the generator's draws, and compares
  them with the literal 0.5, and rounding a decimal literal to a double keeps the order
  of these literals.
\<close>

subsection \<open>Python values\<close>

type_synonym bytes = "8 word list"

datatype py_error = IndexError

text \<open>A JSON-able Python value. A dict keeps its insertion order, so it is a list of items.\<close>

datatype json =
    JBool bool
  | JNum real
  | JStr string
  | JList "json list"
  | JDict "(string \<times> json) list"

text \<open>\<open>d[k] = v\<close>: an existing key keeps its place and gets the new value, a new key goes last.\<close>

fun setitem :: "('k \<times> 'v) list \<Rightarrow> 'k \<Rightarrow> 'v \<Rightarrow> ('k \<times> 'v) list" where
  "setitem [] k v = [(k, v)]"
| "setitem ((k', v') # d) k v =
     (if k' = k then (k', v) # d else (k', v') # setitem d k v)"

text \<open>\<open>xs[i]\<close> for an index that is not negative: out of range raises IndexError.\<close>

definition getitem :: "'a list \<Rightarrow> nat \<Rightarrow> py_error + 'a" where
  "getitem xs i = (if i < length xs then Inr (xs ! i) else Inl IndexError)"

text \<open>
  \<open>str.lower()\<close>: the letters A to Z are mapped to a to z. File names are byte strings
  here; every other byte is kept.
\<close>

definition lower_char :: "char \<Rightarrow> char" where
  "lower_char c =
     (let n = (of_char c :: nat) in if 65 \<le> n \<and> n \<le> 90 then char_of (n + 32) else c)"

definition lower :: "string \<Rightarrow> string" where
  "lower s = map lower_char s"

text \<open>\<open>sub in s\<close> on strings: \<open>sub\<close> occurs in \<open>s\<close> as a contiguous run.\<close>

fun str_in :: "string \<Rightarrow> string \<Rightarrow> bool" where
  "str_in sub [] = (sub = [])"
| "str_in sub (c # cs) = (prefix sub (c # cs) \<or> str_in sub cs)"

subsection \<open>Requests and responses\<close>

text \<open>
  An uploaded file: its declared file name (which may be missing) and the bytes that
  \<open>await f.read()\<close> returns. Whatever else an upload carries (content type, headers) is
  the record's extension.
\<close>

record UploadFile =
  filename :: "string option"
  payload :: bytes

definition read :: "'a UploadFile_scheme \<Rightarrow> bytes" where
  "read f = payload f"

text \<open>
  What the client receives: a JSON response with its status code (200 unless given), the
  answer to a raised \<open>HTTPException(status_code, detail)\<close>, whose body is the detail
  alone, or the server's answer to an exception that nothing catches.
\<close>

datatype response =
    JSONResponse nat json
  | HTTPException nat string
  | Unhandled py_error

datatype request = GET_health | POST_predict UploadFile UploadFile

subsection \<open>The handlers\<close>

definition CLASS_LABELS :: "string list" where
  "CLASS_LABELS =
     [''Atelectasis'', ''Cardiomegaly'', ''Consolidation'', ''Edema'', ''Effusion'',
      ''Emphysema'', ''Fibrosis'', ''Hernia'', ''Infiltration'', ''Mass'',
      ''Nodule'', ''Pleural_Thickening'', ''Pneumonia'', ''Pneumothorax'']"

definition health :: json where
  "health = JDict [(''status'', JStr ''ok'')]"

text \<open>\<open>{label: v for label in labels}\<close>\<close>

definition dict_const :: "string list \<Rightarrow> real \<Rightarrow> (string \<times> real) list" where
  "dict_const labels v = foldl (\<lambda>d label. setitem d label v) [] labels"

text \<open>A dict of floats as a JSON object, and one entry of the findings list.\<close>

definition json_probs :: "(string \<times> real) list \<Rightarrow> json" where
  "json_probs probs_map = JDict (map (\<lambda>(k, v). (k, JNum v)) probs_map)"

definition finding_item :: "string \<Rightarrow> real \<Rightarrow> json" where
  "finding_item k v = JDict [(''finding'', JStr k), (''confidence_score'', JNum v)]"

definition json_body :: "json list \<Rightarrow> (string \<times> real) list \<Rightarrow> json" where
  "json_body findings probs_map =
     JDict [(''success'', JBool True), (''findings'', JList findings),
            (''probabilities'', json_probs probs_map)]"

text \<open>Lines 55 to 68: the file name has "image1" or "image2".\<close>

definition predict_abnormal :: response where
  "predict_abnormal =
     (let probs_map = dict_const CLASS_LABELS 0.12;
          probs_map = setitem probs_map ''Cardiomegaly'' 0.92;
          probs_map = setitem probs_map ''Effusion'' 0.78;
          findings = map (\<lambda>(k, v). finding_item k v) (filter (\<lambda>(k, v). v \<ge> 0.5) probs_map)
      in JSONResponse 200 (json_body findings probs_map))"

text \<open>Lines 70 to 77: the file name has "image3".\<close>

definition predict_normal :: response where
  "predict_normal =
     (let probs_map = dict_const CLASS_LABELS 0.08
      in JSONResponse 200 (json_body [] probs_map))"

text \<open>
  Lines 79 to 91, the fallback. \<open>rng.random(n)\<close> is the first \<open>n\<close> draws of the generator.
  The two comprehensions run over \<open>enumerate(probs)\<close> and read \<open>CLASS_LABELS[i]\<close>; the
  list comprehension tests \<open>p >= 0.5\<close> before it reads the label.
\<close>

definition rng_random :: "(int \<Rightarrow> nat \<Rightarrow> real) \<Rightarrow> int \<Rightarrow> nat \<Rightarrow> real list" where
  "rng_random draw seed n = map (draw seed) [0..<n]"

definition seed_of :: "bytes \<Rightarrow> bytes \<Rightarrow> int" where
  "seed_of cxr_bytes ecg_bytes = int (length cxr_bytes) + int (length ecg_bytes)"

fun fallback_findings :: "string list \<Rightarrow> (nat \<times> real) list \<Rightarrow> py_error + json list" where
  "fallback_findings labels [] = Inr []"
| "fallback_findings labels ((i, p) # ips) =
     (if p \<ge> 0.5 then
        (case getitem labels i of
           Inl e \<Rightarrow> Inl e
         | Inr k \<Rightarrow>
             (case fallback_findings labels ips of
                Inl e \<Rightarrow> Inl e
              | Inr fs \<Rightarrow> Inr (finding_item k p # fs)))
      else fallback_findings labels ips)"

fun fallback_probs ::
  "string list \<Rightarrow> (string \<times> real) list \<Rightarrow> (nat \<times> real) list \<Rightarrow> py_error + (string \<times> real) list"
where
  "fallback_probs labels d [] = Inr d"
| "fallback_probs labels d ((i, p) # ips) =
     (case getitem labels i of
        Inl e \<Rightarrow> Inl e
      | Inr k \<Rightarrow> fallback_probs labels (setitem d k p) ips)"

definition predict_fallback :: "(int \<Rightarrow> nat \<Rightarrow> real) \<Rightarrow> bytes \<Rightarrow> bytes \<Rightarrow> response" where
  "predict_fallback draw cxr_bytes ecg_bytes =
     (let seed = seed_of cxr_bytes ecg_bytes;
          probs = rng_random draw seed (length CLASS_LABELS)
      in case fallback_findings CLASS_LABELS (enumerate 0 probs) of
           Inl e \<Rightarrow> Unhandled e
         | Inr findings \<Rightarrow>
             (case fallback_probs CLASS_LABELS [] (enumerate 0 probs) of
                Inl e \<Rightarrow> Unhandled e
              | Inr probs_map \<Rightarrow> JSONResponse 200 (json_body findings probs_map)))"

text \<open>
  The handler of POST /predict, lines 36 to 91. Each \<open>try\<close> block answers 400 on any
  exception; \<open>cxr.filename or ""\<close> is the empty string when the file name is missing.
\<close>

definition predict ::
  "(bytes \<Rightarrow> bool) \<Rightarrow> (int \<Rightarrow> nat \<Rightarrow> real) \<Rightarrow>
   'a UploadFile_scheme \<Rightarrow> 'b UploadFile_scheme \<Rightarrow> response"
where
  "predict image_open draw cxr ecg =
     (let cxr_bytes = read cxr in
      if \<not> image_open cxr_bytes then HTTPException 400 ''Invalid CXR image''
      else
        let ecg_bytes = read ecg in
        if length ecg_bytes = 0 then HTTPException 400 ''Invalid ECG data''
        else
          let name = lower (case filename cxr of None \<Rightarrow> [] | Some f \<Rightarrow> f) in
          if str_in ''image1'' name \<or> str_in ''image2'' name then predict_abnormal
          else if str_in ''image3'' name then predict_normal
          else predict_fallback draw cxr_bytes ecg_bytes)"

text \<open>
  The application: the route table of the two decorators. A handler that returns a dict is
  answered with status 200. A run of the server answers each request of a sequence in turn;
  no handler writes to anything that outlives its call.
\<close>

definition app :: "(bytes \<Rightarrow> bool) \<Rightarrow> (int \<Rightarrow> nat \<Rightarrow> real) \<Rightarrow> request \<Rightarrow> response" where
  "app image_open draw req =
     (case req of
        GET_health \<Rightarrow> JSONResponse 200 health
      | POST_predict cxr ecg \<Rightarrow> predict image_open draw cxr ecg)"

definition serve :: "(bytes \<Rightarrow> bool) \<Rightarrow> (int \<Rightarrow> nat \<Rightarrow> real) \<Rightarrow> request list \<Rightarrow> response list" where
  "serve image_open draw reqs = map (app image_open draw) reqs"

subsection \<open>Notions used to state the properties\<close>

text \<open>A request passes validation: the image decodes and the signal is not empty.\<close>

definition valid_request ::
  "(bytes \<Rightarrow> bool) \<Rightarrow> 'a UploadFile_scheme \<Rightarrow> 'b UploadFile_scheme \<Rightarrow> bool" where
  "valid_request image_open cxr ecg = (image_open (payload cxr) \<and> payload ecg \<noteq> [])"

text \<open>The lower-cased declared name of the image, a missing name being empty.\<close>

definition cxr_name :: "'a UploadFile_scheme \<Rightarrow> string" where
  "cxr_name cxr = lower (case filename cxr of None \<Rightarrow> [] | Some f \<Rightarrow> f)"

text \<open>What numpy documents of \<open>Generator.random\<close>: every draw lies in the interval [0, 1).\<close>

definition unit_draws :: "(int \<Rightarrow> nat \<Rightarrow> real) \<Rightarrow> bool" where
  "unit_draws draw = (\<forall>seed i. 0 \<le> draw seed i \<and> draw seed i < 1)"


text \<open>
  The findings that belong to a probability map: its entries with a value of at least
  0.5, in the map's order, each with its value.
\<close>

definition findings_of :: "(string \<times> real) list \<Rightarrow> json list" where
  "findings_of probs = map (\<lambda>(k, v). finding_item k v) (filter (\<lambda>(k, v). 0.5 \<le> v) probs)"

text \<open>
  The response envelope of a probability map: status 200, \<open>success\<close> true, the findings
  that belong to the map, and the map.
\<close>

definition envelope :: "(string \<times> real) list \<Rightarrow> response" where
  "envelope probs =
     JSONResponse 200
       (JDict [(''success'', JBool True), (''findings'', JList (findings_of probs)),
               (''probabilities'', JDict (map (\<lambda>(k, v). (k, JNum v)) probs))])"

text \<open>
  The probability map of each scoring rule: the two canned maps, and the map that gives
  draw \<open>i\<close> of the generator seeded with \<open>seed\<close> to label \<open>i\<close>. \<open>label_probs\<close> chooses among
  them by the lower-cased file name, in the order of the handler.
\<close>

definition abnormal_probs :: "(string \<times> real) list" where
  "abnormal_probs =
     [(''Atelectasis'', 0.12), (''Cardiomegaly'', 0.92), (''Consolidation'', 0.12),
      (''Edema'', 0.12), (''Effusion'', 0.78), (''Emphysema'', 0.12),
      (''Fibrosis'', 0.12), (''Hernia'', 0.12), (''Infiltration'', 0.12),
      (''Mass'', 0.12), (''Nodule'', 0.12), (''Pleural_Thickening'', 0.12),
      (''Pneumonia'', 0.12), (''Pneumothorax'', 0.12)]"

definition normal_probs :: "(string \<times> real) list" where
  "normal_probs = map (\<lambda>k. (k, 0.08)) CLASS_LABELS"

definition fallback_draws :: "(int \<Rightarrow> nat \<Rightarrow> real) \<Rightarrow> int \<Rightarrow> (string \<times> real) list" where
  "fallback_draws draw seed = zip CLASS_LABELS (map (draw seed) [0..<14])"

definition label_probs ::
  "(int \<Rightarrow> nat \<Rightarrow> real) \<Rightarrow> string \<Rightarrow> bytes \<Rightarrow> bytes \<Rightarrow> (string \<times> real) list" where
  "label_probs draw name cxr_bytes ecg_bytes =
     (if str_in ''image1'' name \<or> str_in ''image2'' name then abnormal_probs
      else if str_in ''image3'' name then normal_probs
      else fallback_draws draw (int (length cxr_bytes) + int (length ecg_bytes)))"

definition no_canned_name :: "string \<Rightarrow> bool" where
  "no_canned_name name =
     (\<not> str_in ''image1'' name \<and> \<not> str_in ''image2'' name \<and> \<not> str_in ''image3'' name)"

text \<open>
  The responses of the two canned scenarios, written out: Scenario A (file name with
  "image1" or "image2") and Scenario B (file name with "image3").
\<close>

definition scenario_A_response :: response where
  "scenario_A_response =
     JSONResponse 200
       (JDict
         [(''success'', JBool True),
          (''findings'',
             JList
               [JDict [(''finding'', JStr ''Cardiomegaly''), (''confidence_score'', JNum 0.92)],
                JDict [(''finding'', JStr ''Effusion''), (''confidence_score'', JNum 0.78)]]),
          (''probabilities'',
             JDict
               [(''Atelectasis'', JNum 0.12), (''Cardiomegaly'', JNum 0.92),
                (''Consolidation'', JNum 0.12), (''Edema'', JNum 0.12),
                (''Effusion'', JNum 0.78), (''Emphysema'', JNum 0.12),
                (''Fibrosis'', JNum 0.12), (''Hernia'', JNum 0.12),
                (''Infiltration'', JNum 0.12), (''Mass'', JNum 0.12),
                (''Nodule'', JNum 0.12), (''Pleural_Thickening'', JNum 0.12),
                (''Pneumonia'', JNum 0.12), (''Pneumothorax'', JNum 0.12)])])"

definition scenario_B_response :: response where
  "scenario_B_response =
     JSONResponse 200
       (JDict
         [(''success'', JBool True),
          (''findings'', JList []),
          (''probabilities'',
             JDict
               [(''Atelectasis'', JNum 0.08), (''Cardiomegaly'', JNum 0.08),
                (''Consolidation'', JNum 0.08), (''Edema'', JNum 0.08),
                (''Effusion'', JNum 0.08), (''Emphysema'', JNum 0.08),
                (''Fibrosis'', JNum 0.08), (''Hernia'', JNum 0.08),
                (''Infiltration'', JNum 0.08), (''Mass'', JNum 0.08),
                (''Nodule'', JNum 0.08), (''Pleural_Thickening'', JNum 0.08),
                (''Pneumonia'', JNum 0.08), (''Pneumothorax'', JNum 0.08)])])"

subsection \<open>Example requests\<close>

text \<open>
  A decoder that accepts the bytes that start with the signature "BM", a generator whose
  draws are tenths, and some uploads: three images of the decoder, a file that is not
  one, two signals of three bytes and an empty one.
\<close>

definition ex_image_open :: "bytes \<Rightarrow> bool" where
  "ex_image_open b = (take 2 b = [0x42, 0x4D])"

definition ex_draw :: "int \<Rightarrow> nat \<Rightarrow> real" where
  "ex_draw seed i = real_of_int ((seed * 7 + int i * 3) mod 10) / 10"

definition ex_cxr :: "string option \<Rightarrow> UploadFile" where
  "ex_cxr name = \<lparr>filename = name, payload = [0x42, 0x4D, 0x00]\<rparr>"

definition ex_cxr_other :: "string option \<Rightarrow> UploadFile" where
  "ex_cxr_other name = \<lparr>filename = name, payload = [0x42, 0x4D, 0xFF]\<rparr>"

definition ex_cxr_long :: "string option \<Rightarrow> UploadFile" where
  "ex_cxr_long name = \<lparr>filename = name, payload = [0x42, 0x4D, 0x01, 0x02, 0x03]\<rparr>"

definition ex_not_image :: "string option \<Rightarrow> UploadFile" where
  "ex_not_image name = \<lparr>filename = name, payload = [0x68, 0x69]\<rparr>"

definition ex_ecg :: UploadFile where
  "ex_ecg = \<lparr>filename = Some ''ecg.csv'', payload = [0x31, 0x2C, 0x32]\<rparr>"

definition ex_ecg_other :: UploadFile where
  "ex_ecg_other = \<lparr>filename = None, payload = [0x37, 0x3B, 0x39]\<rparr>"

definition ex_ecg_empty :: UploadFile where
  "ex_ecg_empty = \<lparr>filename = Some ''ecg.csv'', payload = []\<rparr>"

section \<open>Properties\<close>

subsection \<open>The model of the Python operations\<close>

text \<open>
  \<open>str_in\<close> is the contiguous-sublist relation, \<open>lower\<close> lowers the ASCII capitals, and
  storing under a key that a dict does not have appends the item.
\<close>

lemma str_in_sublist: "str_in sub s \<longleftrightarrow> sublist sub s"
  by (induction s) (auto simp: sublist_Cons_right)

lemma lower_ex: "lower ''Chest_IMAGE1.png'' = ''chest_image1.png''"
  by (simp add: lower_def lower_char_def char_of_eq_iff)

lemma lower_IMAGE3: "lower ''IMAGE3.png'' = ''image3.png''"
  by (simp add: lower_def lower_char_def char_of_eq_iff)

lemma random_bmp_not_canned: "no_canned_name (lower ''random.bmp'')"
  by (simp add: no_canned_name_def lower_def lower_char_def)

lemma setitem_fresh: "k \<notin> fst ` set d \<Longrightarrow> setitem d k v = d @ [(k, v)]"
  by (induction d) auto

lemma CLASS_LABELS_length: "length CLASS_LABELS = 14"
  by (simp add: CLASS_LABELS_def)

lemma CLASS_LABELS_distinct: "distinct CLASS_LABELS"
  by (simp add: CLASS_LABELS_def)

subsection \<open>The three scoring rules\<close>

text \<open>
  Over \<open>enumerate(probs)\<close> with no more draws than labels, neither comprehension of the
  fallback reads a label out of range: the findings are those of the zipped map, and the
  dict is the zipped map.
\<close>

lemma fallback_findings_zip:
  "n + length ps \<le> length labels \<Longrightarrow>
   fallback_findings labels (enumerate n ps) = Inr (findings_of (zip (drop n labels) ps))"
proof (induction ps arbitrary: n)
  case Nil
  then show ?case by (simp add: findings_of_def)
next
  case (Cons p ps)
  from Cons.prems have n: "n < length labels" and le: "Suc n + length ps \<le> length labels"
    by simp_all
  have dr: "drop n labels = labels ! n # drop (Suc n) labels"
    using n by (simp add: Cons_nth_drop_Suc)
  show ?case
    using Cons.IH [OF le] n by (simp add: dr getitem_def findings_of_def)
qed

lemma fallback_probs_zip:
  "distinct labels \<Longrightarrow> n + length ps \<le> length labels \<Longrightarrow>
   fst ` set d \<inter> set (drop n labels) = {} \<Longrightarrow>
   fallback_probs labels d (enumerate n ps) = Inr (d @ zip (drop n labels) ps)"
proof (induction ps arbitrary: n d)
  case Nil
  then show ?case by simp
next
  case (Cons p ps)
  from Cons.prems have n: "n < length labels" and le: "Suc n + length ps \<le> length labels"
    by simp_all
  have dr: "drop n labels = labels ! n # drop (Suc n) labels"
    using n by (simp add: Cons_nth_drop_Suc)
  have fresh: "labels ! n \<notin> fst ` set d"
    using Cons.prems(3) by (auto simp: dr)
  have "distinct (drop n labels)"
    using Cons.prems(1) by simp
  then have notin: "labels ! n \<notin> set (drop (Suc n) labels)"
    by (simp add: dr)
  have disj: "fst ` set (d @ [(labels ! n, p)]) \<inter> set (drop (Suc n) labels) = {}"
    using Cons.prems(3) notin by (auto simp: dr)
  show ?case
    using Cons.IH [OF Cons.prems(1) le disj] n
    by (simp add: dr getitem_def setitem_fresh [OF fresh])
qed

lemma predict_fallback_eq:
  "predict_fallback draw a b = envelope (fallback_draws draw (seed_of a b))"
proof -
  let ?ps = "rng_random draw (seed_of a b) (length CLASS_LABELS)"
  have len: "0 + length ?ps \<le> length CLASS_LABELS"
    by (simp add: rng_random_def)
  have f: "fallback_findings CLASS_LABELS (enumerate 0 ?ps) = Inr (findings_of (zip CLASS_LABELS ?ps))"
    using fallback_findings_zip [OF len] by simp
  have p: "fallback_probs CLASS_LABELS [] (enumerate 0 ?ps) = Inr (zip CLASS_LABELS ?ps)"
    using fallback_probs_zip [OF CLASS_LABELS_distinct len, of "[]"] by simp
  show ?thesis
    unfolding predict_fallback_def Let_def f p
    by (simp add: CLASS_LABELS_length envelope_def fallback_draws_def rng_random_def
        json_body_def json_probs_def)
qed

lemma predict_abnormal_eq: "predict_abnormal = envelope abnormal_probs"
  by (simp add: predict_abnormal_def dict_const_def CLASS_LABELS_def envelope_def
      abnormal_probs_def findings_of_def json_body_def json_probs_def)

lemma predict_normal_eq: "predict_normal = envelope normal_probs"
  by (simp add: predict_normal_def dict_const_def CLASS_LABELS_def envelope_def
      normal_probs_def findings_of_def json_body_def json_probs_def)

subsection \<open>The handler, case by case\<close>

lemma predict_invalid_image:
  "\<not> image_open (payload cxr) \<Longrightarrow>
   predict image_open draw cxr ecg = HTTPException 400 ''Invalid CXR image''"
  by (simp add: predict_def read_def)

lemma predict_invalid_signal:
  "image_open (payload cxr) \<Longrightarrow> payload ecg = [] \<Longrightarrow>
   predict image_open draw cxr ecg = HTTPException 400 ''Invalid ECG data''"
  by (simp add: predict_def read_def)

lemma predict_valid:
  "valid_request image_open cxr ecg \<Longrightarrow>
   predict image_open draw cxr ecg =
     envelope (label_probs draw (cxr_name cxr) (payload cxr) (payload ecg))"
  by (simp add: predict_def read_def valid_request_def cxr_name_def label_probs_def
      predict_abnormal_eq predict_normal_eq predict_fallback_eq seed_of_def)

lemma predict_never_unhandled: "predict image_open draw cxr ecg \<noteq> Unhandled e"
proof (cases "valid_request image_open cxr ecg")
  case True
  then show ?thesis by (simp add: predict_valid envelope_def)
next
  case False
  then show ?thesis
    by (cases "image_open (payload cxr)")
      (simp_all add: valid_request_def predict_invalid_image predict_invalid_signal)
qed

lemma label_probs_keys: "map fst (label_probs draw name a b) = CLASS_LABELS"
  by (simp add: label_probs_def abnormal_probs_def normal_probs_def fallback_draws_def
      CLASS_LABELS_def comp_def)

lemma label_probs_range:
  assumes "unit_draws draw" and "(k, v) \<in> set (label_probs draw name a b)"
  shows "0 \<le> v \<and> v \<le> 1"
proof -
  consider "(k, v) \<in> set abnormal_probs" | "(k, v) \<in> set normal_probs"
    | seed where "(k, v) \<in> set (fallback_draws draw seed)"
    using assms(2) by (auto simp: label_probs_def split: if_splits)
  then show ?thesis
  proof cases
    case 1
    then show ?thesis by (auto simp: abnormal_probs_def)
  next
    case 2
    then show ?thesis by (auto simp: normal_probs_def)
  next
    case 3
    then have "v \<in> set (map (draw seed) [0..<14])"
      unfolding fallback_draws_def by (rule set_zip_rightD)
    then obtain i where "v = draw seed i" by auto
    with assms(1) show ?thesis by (simp add: unit_draws_def less_imp_le)
  qed
qed

lemma label_probs_fallback:
  "no_canned_name name \<Longrightarrow>
   label_probs draw name a b = fallback_draws draw (int (length a) + int (length b))"
  by (simp add: label_probs_def no_canned_name_def)

lemma label_probs_canned:
  "\<not> no_canned_name name \<Longrightarrow> label_probs draw name a b = label_probs draw' name a' b'"
  by (auto simp: label_probs_def no_canned_name_def)

lemma fallback_draws_nth:
  "i < 14 \<Longrightarrow> fallback_draws draw seed ! i = (CLASS_LABELS ! i, draw seed i)"
  by (simp add: fallback_draws_def CLASS_LABELS_length)

lemma envelope_abnormal: "envelope abnormal_probs = scenario_A_response"
  by (simp add: envelope_def abnormal_probs_def findings_of_def finding_item_def
      scenario_A_response_def)

lemma envelope_normal: "envelope normal_probs = scenario_B_response"
  by (simp add: envelope_def normal_probs_def findings_of_def CLASS_LABELS_def
      scenario_B_response_def)

subsection \<open>The example requests\<close>

lemma ex_unit_draws: "unit_draws ex_draw"
  by (simp add: unit_draws_def ex_draw_def)

lemma ex_valid: "valid_request ex_image_open (ex_cxr name) ex_ecg"
  by (simp add: valid_request_def ex_image_open_def ex_cxr_def ex_ecg_def)

lemma ex_valid_other: "valid_request ex_image_open (ex_cxr_other name) ex_ecg_other"
  by (simp add: valid_request_def ex_image_open_def ex_cxr_other_def ex_ecg_other_def)

lemma ex_valid_long: "valid_request ex_image_open (ex_cxr_long name) ex_ecg_other"
  by (simp add: valid_request_def ex_image_open_def ex_cxr_long_def ex_ecg_other_def)

subsection \<open>The liveness check\<close>

text \<open>
  C8: GET /health takes no input and is answered with status 200 and the body
  \<open>{"status": "ok"}\<close>, at every invocation and after any sequence of earlier requests.
\<close>

theorem health_always_ok:
  "app image_open draw GET_health = JSONResponse 200 (JDict [(''status'', JStr ''ok'')])
   \<and> last (serve image_open draw (history @ [GET_health]))
       = JSONResponse 200 (JDict [(''status'', JStr ''ok'')])"
  by (simp add: app_def serve_def health_def)

subsection \<open>The shape of a successful response\<close>

text \<open>
  C1: for every valid request (the image decodes, the signal is not empty), with a
  generator whose draws lie in [0, 1), the response has status 200 and \<open>success\<close> true, and
  the keys of its probability map are the 14 distinct labels of \<open>CLASS_LABELS\<close>, in that
  order, each with a value in [0, 1]. The statement covers the three scoring rules.
\<close>

theorem probabilities_cover_label_set:
  assumes "unit_draws draw" and "valid_request image_open cxr ecg"
  shows "\<exists>findings probs.
      predict image_open draw cxr ecg =
        JSONResponse 200
          (JDict [(''success'', JBool True), (''findings'', JList findings),
                  (''probabilities'', JDict (map (\<lambda>(k, v). (k, JNum v)) probs))])
      \<and> map fst probs = CLASS_LABELS \<and> length CLASS_LABELS = 14 \<and> distinct CLASS_LABELS
      \<and> (\<forall>(k, v) \<in> set probs. 0 \<le> v \<and> v \<le> 1)"
proof -
  let ?probs = "label_probs draw (cxr_name cxr) (payload cxr) (payload ecg)"
  have "predict image_open draw cxr ecg =
      JSONResponse 200
        (JDict [(''success'', JBool True), (''findings'', JList (findings_of ?probs)),
                (''probabilities'', JDict (map (\<lambda>(k, v). (k, JNum v)) ?probs))])"
    using predict_valid [OF assms(2)] by (simp add: envelope_def)
  moreover have "map fst ?probs = CLASS_LABELS"
    by (rule label_probs_keys)
  moreover have "\<forall>(k, v) \<in> set ?probs. 0 \<le> v \<and> v \<le> 1"
    using label_probs_range [OF assms(1)] by blast
  ultimately show ?thesis
    using CLASS_LABELS_length CLASS_LABELS_distinct by blast
qed

theorem probabilities_cover_label_set_witness:
  "unit_draws ex_draw \<and> valid_request ex_image_open (ex_cxr (Some ''random.bmp'')) ex_ecg
   \<and> (\<exists>findings probs.
      predict ex_image_open ex_draw (ex_cxr (Some ''random.bmp'')) ex_ecg =
        JSONResponse 200
          (JDict [(''success'', JBool True), (''findings'', JList findings),
                  (''probabilities'', JDict (map (\<lambda>(k, v). (k, JNum v)) probs))])
      \<and> map fst probs = CLASS_LABELS \<and> length CLASS_LABELS = 14 \<and> distinct CLASS_LABELS
      \<and> (\<forall>(k, v) \<in> set probs. 0 \<le> v \<and> v \<le> 1))"
  using ex_unit_draws ex_valid probabilities_cover_label_set [OF ex_unit_draws ex_valid]
  by (intro conjI)

text \<open>
  C2: for every valid request, the findings list is the list of the entries of the
  probability map whose value is at least 0.5, in the order of the map (which is the
  order of the labels), and the confidence score of each finding is the value of its
  entry.
\<close>

theorem findings_filter_probabilities:
  assumes "valid_request image_open cxr ecg"
  shows "\<exists>probs.
      predict image_open draw cxr ecg =
        JSONResponse 200
          (JDict [(''success'', JBool True),
                  (''findings'',
                     JList (map (\<lambda>(k, v). JDict [(''finding'', JStr k), (''confidence_score'', JNum v)])
                             (filter (\<lambda>(k, v). 0.5 \<le> v) probs))),
                  (''probabilities'', JDict (map (\<lambda>(k, v). (k, JNum v)) probs))])
      \<and> map fst probs = CLASS_LABELS"
proof -
  let ?probs = "label_probs draw (cxr_name cxr) (payload cxr) (payload ecg)"
  have "predict image_open draw cxr ecg =
      JSONResponse 200
        (JDict [(''success'', JBool True),
                (''findings'',
                   JList (map (\<lambda>(k, v). JDict [(''finding'', JStr k), (''confidence_score'', JNum v)])
                           (filter (\<lambda>(k, v). 0.5 \<le> v) ?probs))),
                (''probabilities'', JDict (map (\<lambda>(k, v). (k, JNum v)) ?probs))])"
    using predict_valid [OF assms]
    by (simp only: envelope_def findings_of_def finding_item_def)
  with label_probs_keys [of draw "cxr_name cxr" "payload cxr" "payload ecg"]
  show ?thesis by blast
qed

theorem findings_filter_probabilities_witness:
  "valid_request ex_image_open (ex_cxr (Some ''random.bmp'')) ex_ecg
   \<and> (\<exists>probs.
      predict ex_image_open ex_draw (ex_cxr (Some ''random.bmp'')) ex_ecg =
        JSONResponse 200
          (JDict [(''success'', JBool True),
                  (''findings'',
                     JList (map (\<lambda>(k, v). JDict [(''finding'', JStr k), (''confidence_score'', JNum v)])
                             (filter (\<lambda>(k, v). 0.5 \<le> v) probs))),
                  (''probabilities'', JDict (map (\<lambda>(k, v). (k, JNum v)) probs))])
      \<and> map fst probs = CLASS_LABELS)"
  using ex_valid findings_filter_probabilities [OF ex_valid]
  by (intro conjI)

subsection \<open>The canned file names\<close>

text \<open>
  C3: for every valid request whose lower-cased image file name contains "image1" or
  "image2", the response is that of Scenario A: Cardiomegaly 0.92, Effusion 0.78, the
  other twelve labels 0.12, and the two findings Cardiomegaly and Effusion in this order.
  This holds for the file name "chest_image1.png".
\<close>

theorem canned_abnormal_case:
  "(valid_request image_open cxr ecg
      \<and> (str_in ''image1'' (cxr_name cxr) \<or> str_in ''image2'' (cxr_name cxr))
      \<longrightarrow> predict image_open draw cxr ecg = scenario_A_response)
   \<and> (valid_request image_open cxr ecg \<and> filename cxr = Some ''chest_image1.png''
      \<longrightarrow> predict image_open draw cxr ecg = scenario_A_response)"
proof (intro conjI impI)
  assume h: "valid_request image_open cxr ecg
      \<and> (str_in ''image1'' (cxr_name cxr) \<or> str_in ''image2'' (cxr_name cxr))"
  then have "label_probs draw (cxr_name cxr) (payload cxr) (payload ecg) = abnormal_probs"
    by (simp add: label_probs_def)
  with h show "predict image_open draw cxr ecg = scenario_A_response"
    by (simp add: predict_valid envelope_abnormal)
next
  assume h: "valid_request image_open cxr ecg \<and> filename cxr = Some ''chest_image1.png''"
  then have "cxr_name cxr = ''chest_image1.png''"
    by (simp add: cxr_name_def lower_def lower_char_def)
  then have "label_probs draw (cxr_name cxr) (payload cxr) (payload ecg) = abnormal_probs"
    by (simp add: label_probs_def)
  with h show "predict image_open draw cxr ecg = scenario_A_response"
    by (simp add: predict_valid envelope_abnormal)
qed

theorem canned_abnormal_case_witness:
  "valid_request ex_image_open (ex_cxr (Some ''chest_image1.png'')) ex_ecg
   \<and> filename (ex_cxr (Some ''chest_image1.png'')) = Some ''chest_image1.png''
   \<and> str_in ''image1'' (cxr_name (ex_cxr (Some ''chest_image1.png'')))
   \<and> predict ex_image_open ex_draw (ex_cxr (Some ''chest_image1.png'')) ex_ecg
       = scenario_A_response"
proof -
  have v: "valid_request ex_image_open (ex_cxr (Some ''chest_image1.png'')) ex_ecg"
    by (rule ex_valid)
  have f: "filename (ex_cxr (Some ''chest_image1.png'')) = Some ''chest_image1.png''"
    by (simp add: ex_cxr_def)
  have s: "str_in ''image1'' (cxr_name (ex_cxr (Some ''chest_image1.png'')))"
    by (simp add: cxr_name_def ex_cxr_def lower_def lower_char_def)
  from v f s canned_abnormal_case [of ex_image_open "ex_cxr (Some ''chest_image1.png'')" ex_ecg ex_draw]
  show ?thesis by blast
qed

text \<open>
  C4: for every valid request whose lower-cased image file name contains "image3" and
  neither "image1" nor "image2", the response is that of Scenario B: all 14 probabilities
  0.08 and no finding. This holds for the file name "scan_image3.jpg".
\<close>

theorem canned_normal_case:
  "(valid_request image_open cxr ecg
      \<and> str_in ''image3'' (cxr_name cxr)
      \<and> \<not> str_in ''image1'' (cxr_name cxr) \<and> \<not> str_in ''image2'' (cxr_name cxr)
      \<longrightarrow> predict image_open draw cxr ecg = scenario_B_response)
   \<and> (valid_request image_open cxr ecg \<and> filename cxr = Some ''scan_image3.jpg''
      \<longrightarrow> predict image_open draw cxr ecg = scenario_B_response)"
proof (intro conjI impI)
  assume h: "valid_request image_open cxr ecg
      \<and> str_in ''image3'' (cxr_name cxr)
      \<and> \<not> str_in ''image1'' (cxr_name cxr) \<and> \<not> str_in ''image2'' (cxr_name cxr)"
  then have "label_probs draw (cxr_name cxr) (payload cxr) (payload ecg) = normal_probs"
    by (simp add: label_probs_def)
  with h show "predict image_open draw cxr ecg = scenario_B_response"
    by (simp add: predict_valid envelope_normal)
next
  assume h: "valid_request image_open cxr ecg \<and> filename cxr = Some ''scan_image3.jpg''"
  then have "cxr_name cxr = ''scan_image3.jpg''"
    by (simp add: cxr_name_def lower_def lower_char_def)
  then have "label_probs draw (cxr_name cxr) (payload cxr) (payload ecg) = normal_probs"
    by (simp add: label_probs_def)
  with h show "predict image_open draw cxr ecg = scenario_B_response"
    by (simp add: predict_valid envelope_normal)
qed

theorem canned_normal_case_witness:
  "valid_request ex_image_open (ex_cxr (Some ''scan_image3.jpg'')) ex_ecg
   \<and> filename (ex_cxr (Some ''scan_image3.jpg'')) = Some ''scan_image3.jpg''
   \<and> str_in ''image3'' (cxr_name (ex_cxr (Some ''scan_image3.jpg'')))
   \<and> predict ex_image_open ex_draw (ex_cxr (Some ''scan_image3.jpg'')) ex_ecg
       = scenario_B_response"
proof -
  have v: "valid_request ex_image_open (ex_cxr (Some ''scan_image3.jpg'')) ex_ecg"
    by (rule ex_valid)
  have f: "filename (ex_cxr (Some ''scan_image3.jpg'')) = Some ''scan_image3.jpg''"
    by (simp add: ex_cxr_def)
  have s: "str_in ''image3'' (cxr_name (ex_cxr (Some ''scan_image3.jpg'')))"
    by (simp add: cxr_name_def ex_cxr_def lower_def lower_char_def)
  from v f s canned_normal_case [of ex_image_open "ex_cxr (Some ''scan_image3.jpg'')" ex_ecg ex_draw]
  show ?thesis by blast
qed

text \<open>
  C9: two valid requests with the same image file name, which contains "image1", "image2"
  or "image3" once lower-cased, get the same response, whatever their image bytes, signal
  bytes, payload lengths and signal file names.
\<close>

theorem canned_response_ignores_payloads:
  assumes "valid_request image_open cxr ecg" and "valid_request image_open cxr' ecg'"
    and "filename cxr = filename cxr'"
    and "str_in ''image1'' (cxr_name cxr) \<or> str_in ''image2'' (cxr_name cxr)
         \<or> str_in ''image3'' (cxr_name cxr)"
  shows "predict image_open draw cxr ecg = predict image_open draw cxr' ecg'"
proof -
  have n: "cxr_name cxr' = cxr_name cxr"
    using assms(3) by (simp add: cxr_name_def)
  have c: "\<not> no_canned_name (cxr_name cxr)"
    using assms(4) by (auto simp: no_canned_name_def)
  show ?thesis
    unfolding predict_valid [OF assms(1)] predict_valid [OF assms(2)] n
    by (rule arg_cong [OF label_probs_canned [OF c]])
qed

theorem canned_response_ignores_payloads_witness:
  "valid_request ex_image_open (ex_cxr (Some ''IMAGE3.png'')) ex_ecg
   \<and> valid_request ex_image_open (ex_cxr_long (Some ''IMAGE3.png'')) ex_ecg_other
   \<and> filename (ex_cxr (Some ''IMAGE3.png'')) = filename (ex_cxr_long (Some ''IMAGE3.png''))
   \<and> str_in ''image3'' (cxr_name (ex_cxr (Some ''IMAGE3.png'')))
   \<and> length (payload (ex_cxr (Some ''IMAGE3.png''))) \<noteq> length (payload (ex_cxr_long (Some ''IMAGE3.png'')))
   \<and> filename ex_ecg \<noteq> filename ex_ecg_other
   \<and> payload ex_ecg \<noteq> payload ex_ecg_other
   \<and> predict ex_image_open ex_draw (ex_cxr (Some ''IMAGE3.png'')) ex_ecg
       = predict ex_image_open ex_draw (ex_cxr_long (Some ''IMAGE3.png'')) ex_ecg_other"
proof -
  have f: "filename (ex_cxr (Some ''IMAGE3.png'')) = filename (ex_cxr_long (Some ''IMAGE3.png''))"
    by (simp add: ex_cxr_def ex_cxr_long_def)
  have s: "str_in ''image3'' (cxr_name (ex_cxr (Some ''IMAGE3.png'')))"
    by (simp add: cxr_name_def ex_cxr_def lower_IMAGE3)
  have d: "length (payload (ex_cxr (Some ''IMAGE3.png''))) \<noteq> length (payload (ex_cxr_long (Some ''IMAGE3.png'')))"
    "filename ex_ecg \<noteq> filename ex_ecg_other" "payload ex_ecg \<noteq> payload ex_ecg_other"
    by (simp_all add: ex_cxr_def ex_cxr_long_def ex_ecg_def ex_ecg_other_def)
  from s have s': "str_in ''image1'' (cxr_name (ex_cxr (Some ''IMAGE3.png'')))
      \<or> str_in ''image2'' (cxr_name (ex_cxr (Some ''IMAGE3.png'')))
      \<or> str_in ''image3'' (cxr_name (ex_cxr (Some ''IMAGE3.png'')))"
    by blast
  from ex_valid ex_valid_long f s d
    canned_response_ignores_payloads [OF ex_valid ex_valid_long f s', of ex_draw]
  show ?thesis by (intro conjI)
qed

subsection \<open>The fallback\<close>

text \<open>
  C5: for every valid request whose lower-cased image file name (empty when missing)
  contains none of "image1", "image2", "image3", the response is the envelope of the map
  that gives to label \<open>i\<close> draw \<open>i\<close> of the generator seeded with the sum of the two payload
  lengths; the draws are in [0, 1) when the generator's are. So two such requests with
  pairwise equal payload lengths get the same response, and lengths 1000 and 500 give the
  seed 1500.
\<close>

theorem fallback_seeded_by_lengths:
  "(valid_request image_open cxr ecg \<and> no_canned_name (cxr_name cxr) \<longrightarrow>
      predict image_open draw cxr ecg =
        envelope (fallback_draws draw (int (length (payload cxr)) + int (length (payload ecg)))))
   \<and> length (fallback_draws draw seed) = 14
   \<and> (i < 14 \<longrightarrow> fallback_draws draw seed ! i = (CLASS_LABELS ! i, draw seed i))
   \<and> (unit_draws draw \<and> i < 14 \<longrightarrow>
        0 \<le> snd (fallback_draws draw seed ! i) \<and> snd (fallback_draws draw seed ! i) < 1)
   \<and> (valid_request image_open cxr ecg \<and> no_canned_name (cxr_name cxr)
       \<and> valid_request image_open cxr' ecg' \<and> no_canned_name (cxr_name cxr')
       \<and> length (payload cxr) = length (payload cxr')
       \<and> length (payload ecg) = length (payload ecg') \<longrightarrow>
        predict image_open draw cxr ecg = predict image_open draw cxr' ecg')
   \<and> (length (payload cxr) = 1000 \<and> length (payload ecg) = 500 \<longrightarrow>
        seed_of (payload cxr) (payload ecg) = 1500
        \<and> int (length (payload cxr)) + int (length (payload ecg)) = 1500)"
proof (intro conjI impI)
  assume "valid_request image_open cxr ecg \<and> no_canned_name (cxr_name cxr)"
  then show "predict image_open draw cxr ecg =
      envelope (fallback_draws draw (int (length (payload cxr)) + int (length (payload ecg))))"
    by (simp add: predict_valid label_probs_fallback)
next
  show "length (fallback_draws draw seed) = 14"
    by (simp add: fallback_draws_def CLASS_LABELS_length)
next
  assume "i < 14"
  then show "fallback_draws draw seed ! i = (CLASS_LABELS ! i, draw seed i)"
    by (rule fallback_draws_nth)
next
  assume "unit_draws draw \<and> i < 14"
  then show "0 \<le> snd (fallback_draws draw seed ! i)"
    by (simp add: fallback_draws_nth unit_draws_def)
next
  assume "unit_draws draw \<and> i < 14"
  then show "snd (fallback_draws draw seed ! i) < 1"
    by (simp add: fallback_draws_nth unit_draws_def)
next
  assume "valid_request image_open cxr ecg \<and> no_canned_name (cxr_name cxr)
       \<and> valid_request image_open cxr' ecg' \<and> no_canned_name (cxr_name cxr')
       \<and> length (payload cxr) = length (payload cxr')
       \<and> length (payload ecg) = length (payload ecg')"
  then show "predict image_open draw cxr ecg = predict image_open draw cxr' ecg'"
    by (simp add: predict_valid label_probs_fallback)
next
  assume "length (payload cxr) = 1000 \<and> length (payload ecg) = 500"
  then show "seed_of (payload cxr) (payload ecg) = 1500"
    by (simp add: seed_of_def)
next
  assume "length (payload cxr) = 1000 \<and> length (payload ecg) = 500"
  then show "int (length (payload cxr)) + int (length (payload ecg)) = 1500"
    by simp
qed

theorem fallback_seeded_by_lengths_witness:
  "valid_request ex_image_open (ex_cxr (Some ''random.bmp'')) ex_ecg
   \<and> no_canned_name (cxr_name (ex_cxr (Some ''random.bmp'')))
   \<and> valid_request ex_image_open (ex_cxr_other None) ex_ecg_other
   \<and> no_canned_name (cxr_name (ex_cxr_other None))
   \<and> length (payload (ex_cxr (Some ''random.bmp''))) = length (payload (ex_cxr_other None))
   \<and> length (payload ex_ecg) = length (payload ex_ecg_other)
   \<and> payload (ex_cxr (Some ''random.bmp'')) \<noteq> payload (ex_cxr_other None)
   \<and> payload ex_ecg \<noteq> payload ex_ecg_other
   \<and> unit_draws ex_draw
   \<and> predict ex_image_open ex_draw (ex_cxr (Some ''random.bmp'')) ex_ecg
       = envelope (fallback_draws ex_draw 6)
   \<and> predict ex_image_open ex_draw (ex_cxr (Some ''random.bmp'')) ex_ecg
       = predict ex_image_open ex_draw (ex_cxr_other None) ex_ecg_other
   \<and> fallback_draws ex_draw 6 ! 2 = (''Consolidation'', 0.8)
   \<and> 0 \<le> snd (fallback_draws ex_draw 6 ! 2) \<and> snd (fallback_draws ex_draw 6 ! 2) < 1"
proof -
  have v: "valid_request ex_image_open (ex_cxr (Some ''random.bmp'')) ex_ecg"
    by (rule ex_valid)
  have n: "no_canned_name (cxr_name (ex_cxr (Some ''random.bmp'')))"
    by (simp add: cxr_name_def ex_cxr_def random_bmp_not_canned)
  have v': "valid_request ex_image_open (ex_cxr_other None) ex_ecg_other"
    by (rule ex_valid_other)
  have n': "no_canned_name (cxr_name (ex_cxr_other None))"
    by (simp add: cxr_name_def ex_cxr_other_def no_canned_name_def lower_def)
  have l: "length (payload (ex_cxr (Some ''random.bmp''))) = length (payload (ex_cxr_other None))"
    "length (payload ex_ecg) = length (payload ex_ecg_other)"
    "payload (ex_cxr (Some ''random.bmp'')) \<noteq> payload (ex_cxr_other None)"
    "payload ex_ecg \<noteq> payload ex_ecg_other"
    by (simp_all add: ex_cxr_def ex_cxr_other_def ex_ecg_def ex_ecg_other_def)
  have s: "int (length (payload (ex_cxr (Some ''random.bmp'')))) + int (length (payload ex_ecg)) = 6"
    by (simp add: ex_cxr_def ex_ecg_def)
  have d: "(CLASS_LABELS ! 2, ex_draw 6 2) = (''Consolidation'', 0.8)"
    by (simp add: CLASS_LABELS_def ex_draw_def)
  have i: "(2::nat) < 14" by simp
  note t = fallback_seeded_by_lengths [of ex_image_open "ex_cxr (Some ''random.bmp'')" ex_ecg
      ex_draw 6 2 "ex_cxr_other None" ex_ecg_other]
  from t v n have 1: "predict ex_image_open ex_draw (ex_cxr (Some ''random.bmp'')) ex_ecg
       = envelope (fallback_draws ex_draw 6)"
    unfolding s by blast
  from t v n v' n' l have 2: "predict ex_image_open ex_draw (ex_cxr (Some ''random.bmp'')) ex_ecg
       = predict ex_image_open ex_draw (ex_cxr_other None) ex_ecg_other"
    by blast
  from t i have 3: "fallback_draws ex_draw 6 ! 2 = (''Consolidation'', 0.8)"
    unfolding d [symmetric] by blast
  from t i ex_unit_draws
  have 4: "0 \<le> snd (fallback_draws ex_draw 6 ! 2)" "snd (fallback_draws ex_draw 6 ! 2) < 1"
    by blast+
  from v n v' n' l ex_unit_draws 1 2 3 4 show ?thesis
    by (intro conjI)
qed

subsection \<open>Validation\<close>

text \<open>
  C6: when the image does not decode, the response is 400 with the detail
  "Invalid CXR image", whatever the signal upload is; when the image decodes, the response
  is 400 with the detail "Invalid ECG data" exactly when the signal has length zero. A
  request that fails validation never gets a JSON body: the error response carries its
  status and its detail only.
\<close>

theorem validation_ordered_fail_fast:
  "(\<not> image_open (payload cxr) \<longrightarrow>
      predict image_open draw cxr ecg = HTTPException 400 ''Invalid CXR image''
      \<and> predict image_open draw cxr ecg' = predict image_open draw cxr ecg)
   \<and> (image_open (payload cxr) \<longrightarrow>
        (predict image_open draw cxr ecg = HTTPException 400 ''Invalid ECG data''
           \<longleftrightarrow> length (payload ecg) = 0))
   \<and> (\<not> valid_request image_open cxr ecg \<longrightarrow>
        (\<forall>status body. predict image_open draw cxr ecg \<noteq> JSONResponse status body))"
proof (intro conjI impI)
  assume "\<not> image_open (payload cxr)"
  then show "predict image_open draw cxr ecg = HTTPException 400 ''Invalid CXR image''"
    by (rule predict_invalid_image)
next
  assume "\<not> image_open (payload cxr)"
  then show "predict image_open draw cxr ecg' = predict image_open draw cxr ecg"
    by (simp add: predict_invalid_image)
next
  assume d: "image_open (payload cxr)"
  show "predict image_open draw cxr ecg = HTTPException 400 ''Invalid ECG data''
      \<longleftrightarrow> length (payload ecg) = 0"
  proof (cases "payload ecg = []")
    case True
    with d show ?thesis by (simp add: predict_invalid_signal)
  next
    case False
    with d have "valid_request image_open cxr ecg"
      by (simp add: valid_request_def)
    then show ?thesis
      using False by (simp add: predict_valid envelope_def)
  qed
next
  assume "\<not> valid_request image_open cxr ecg"
  then show "\<forall>status body. predict image_open draw cxr ecg \<noteq> JSONResponse status body"
    by (cases "image_open (payload cxr)")
      (simp_all add: valid_request_def predict_invalid_image predict_invalid_signal)
qed

theorem validation_ordered_fail_fast_witness:
  "\<not> ex_image_open (payload (ex_not_image None))
   \<and> predict ex_image_open ex_draw (ex_not_image None) ex_ecg_empty
       = HTTPException 400 ''Invalid CXR image''
   \<and> predict ex_image_open ex_draw (ex_not_image None) ex_ecg
       = predict ex_image_open ex_draw (ex_not_image None) ex_ecg_empty
   \<and> ex_image_open (payload (ex_cxr None)) \<and> length (payload ex_ecg_empty) = 0
   \<and> predict ex_image_open ex_draw (ex_cxr None) ex_ecg_empty
       = HTTPException 400 ''Invalid ECG data''
   \<and> length (payload ex_ecg) \<noteq> 0
   \<and> predict ex_image_open ex_draw (ex_cxr None) ex_ecg
       \<noteq> HTTPException 400 ''Invalid ECG data''"
proof -
  have a: "\<not> ex_image_open (payload (ex_not_image None))"
    by (simp add: ex_image_open_def ex_not_image_def)
  have b: "ex_image_open (payload (ex_cxr None))"
    by (simp add: ex_image_open_def ex_cxr_def)
  have c: "length (payload ex_ecg_empty) = 0" "length (payload ex_ecg) \<noteq> 0"
    by (simp_all add: ex_ecg_empty_def ex_ecg_def)
  from a validation_ordered_fail_fast [of ex_image_open "ex_not_image None" ex_draw ex_ecg_empty ex_ecg]
  have 1: "predict ex_image_open ex_draw (ex_not_image None) ex_ecg_empty
       = HTTPException 400 ''Invalid CXR image''"
    "predict ex_image_open ex_draw (ex_not_image None) ex_ecg
       = predict ex_image_open ex_draw (ex_not_image None) ex_ecg_empty"
    by blast+
  from b c(1) validation_ordered_fail_fast [of ex_image_open "ex_cxr None" ex_draw ex_ecg_empty]
  have 2: "predict ex_image_open ex_draw (ex_cxr None) ex_ecg_empty
       = HTTPException 400 ''Invalid ECG data''"
    by blast
  from b c(2) validation_ordered_fail_fast [of ex_image_open "ex_cxr None" ex_draw ex_ecg]
  have 3: "predict ex_image_open ex_draw (ex_cxr None) ex_ecg
       \<noteq> HTTPException 400 ''Invalid ECG data''"
    by blast
  from a b c 1 2 3 show ?thesis
    by (intro conjI)
qed

text \<open>
  C10: a request whose image does not decode or whose signal is empty gets the 400
  response of the first failed check, and no JSON body, whatever its image file name is;
  the file names with "image1", "image2" or "image3" are no exception.
\<close>

theorem validation_precedes_dispatch:
  assumes "\<not> image_open (payload cxr) \<or> payload ecg = []"
  shows "predict image_open draw cxr ecg =
      HTTPException 400
        (if image_open (payload cxr) then ''Invalid ECG data'' else ''Invalid CXR image'')
    \<and> (\<forall>status body. predict image_open draw cxr ecg \<noteq> JSONResponse status body)"
  using assms
  by (cases "image_open (payload cxr)")
    (simp_all add: predict_invalid_image predict_invalid_signal)

theorem validation_precedes_dispatch_witness:
  "str_in ''image1'' (cxr_name (ex_cxr (Some ''chest_image1.png'')))
   \<and> payload ex_ecg_empty = []
   \<and> predict ex_image_open ex_draw (ex_cxr (Some ''chest_image1.png'')) ex_ecg_empty
       = HTTPException 400 ''Invalid ECG data''
   \<and> str_in ''image3'' (cxr_name (ex_not_image (Some ''scan_image3.jpg'')))
   \<and> \<not> ex_image_open (payload (ex_not_image (Some ''scan_image3.jpg'')))
   \<and> predict ex_image_open ex_draw (ex_not_image (Some ''scan_image3.jpg'')) ex_ecg
       = HTTPException 400 ''Invalid CXR image''"
proof -
  have s: "str_in ''image1'' (cxr_name (ex_cxr (Some ''chest_image1.png'')))"
    "str_in ''image3'' (cxr_name (ex_not_image (Some ''scan_image3.jpg'')))"
    by (simp_all add: cxr_name_def ex_cxr_def ex_not_image_def lower_def lower_char_def)
  have e: "payload ex_ecg_empty = []"
    by (simp add: ex_ecg_empty_def)
  have o: "ex_image_open (payload (ex_cxr (Some ''chest_image1.png'')))"
    by (simp add: ex_image_open_def ex_cxr_def)
  have x: "\<not> ex_image_open (payload (ex_not_image (Some ''scan_image3.jpg'')))"
    by (simp add: ex_image_open_def ex_not_image_def)
  have 1: "predict ex_image_open ex_draw (ex_cxr (Some ''chest_image1.png'')) ex_ecg_empty
       = HTTPException 400 ''Invalid ECG data''"
    using validation_precedes_dispatch [of ex_image_open "ex_cxr (Some ''chest_image1.png'')"
        ex_ecg_empty ex_draw] e o by simp
  have 2: "predict ex_image_open ex_draw (ex_not_image (Some ''scan_image3.jpg'')) ex_ecg
       = HTTPException 400 ''Invalid CXR image''"
    using validation_precedes_dispatch [of ex_image_open "ex_not_image (Some ''scan_image3.jpg'')"
        ex_ecg ex_draw] x by simp
  from s e x 1 2 show ?thesis
    by (intro conjI)
qed

subsection \<open>Determinism\<close>

text \<open>
  C7: the response of the handler is a function of the image file name, the image bytes
  and the signal bytes: two calls that agree on these three get the same response, and
  in any two runs of the server the same request gets the same response, wherever it
  stands in the run.
\<close>

theorem predict_deterministic:
  "(filename cxr = filename cxr' \<and> payload cxr = payload cxr' \<and> payload ecg = payload ecg'
      \<longrightarrow> predict image_open draw cxr ecg = predict image_open draw cxr' ecg')
   \<and> (i < length reqs \<and> j < length reqs' \<and> reqs ! i = reqs' ! j
      \<longrightarrow> serve image_open draw reqs ! i = serve image_open draw reqs' ! j)"
  by (auto simp: predict_def read_def serve_def Let_def)

theorem predict_deterministic_witness:
  "filename (ex_cxr (Some ''random.bmp'')) = filename (ex_cxr (Some ''random.bmp''))
   \<and> payload ex_ecg = payload (ex_ecg\<lparr>filename := None\<rparr>)
   \<and> predict ex_image_open ex_draw (ex_cxr (Some ''random.bmp'')) ex_ecg
       = predict ex_image_open ex_draw (ex_cxr (Some ''random.bmp'')) (ex_ecg\<lparr>filename := None\<rparr>)
   \<and> serve ex_image_open ex_draw
        [GET_health, POST_predict (ex_cxr (Some ''random.bmp'')) ex_ecg] ! 1
       = serve ex_image_open ex_draw
        [POST_predict (ex_cxr (Some ''random.bmp'')) ex_ecg] ! 0"
proof -
  have a: "filename (ex_cxr (Some ''random.bmp'')) = filename (ex_cxr (Some ''random.bmp''))"
    "payload (ex_cxr (Some ''random.bmp'')) = payload (ex_cxr (Some ''random.bmp''))"
    "payload ex_ecg = payload (ex_ecg\<lparr>filename := None\<rparr>)"
    by simp_all
  have b: "1 < length [GET_health, POST_predict (ex_cxr (Some ''random.bmp'')) ex_ecg]"
    "0 < length [POST_predict (ex_cxr (Some ''random.bmp'')) ex_ecg]"
    "[GET_health, POST_predict (ex_cxr (Some ''random.bmp'')) ex_ecg] ! 1
      = [POST_predict (ex_cxr (Some ''random.bmp'')) ex_ecg] ! 0"
    by simp_all
  from a b predict_deterministic [of "ex_cxr (Some ''random.bmp'')" "ex_cxr (Some ''random.bmp'')"
      ex_ecg "ex_ecg\<lparr>filename := None\<rparr>" ex_image_open ex_draw
      1 "[GET_health, POST_predict (ex_cxr (Some ''random.bmp'')) ex_ecg]"
      0 "[POST_predict (ex_cxr (Some ''random.bmp'')) ex_ecg]"]
  show ?thesis by blast
qed

end
